theory Spec2Isabelle
  imports Complex_Main "HOL-Library.AList" "HOL-Library.Sublist" "HOL-Library.Log_Nat"
begin

section \<open>Validator classes and the registry\<close>

text \<open>
  A validator class object, as far as the registry reads it: the class name and the two
  class attributes \<open>title\<close> and \<open>slug\<close>.
\<close>

record validator_type =
  cls_name :: string
  title :: string
  slug :: string

text \<open>The five classes defined (and decorated with \<open>@register\<close>) by the module.\<close>

datatype builtin =
  RegexValidator | RangeValidator | ChoiceValidator | BooleanValidator | MultipleChoiceValidator

fun class_of :: "builtin \<Rightarrow> validator_type" where
  "class_of RegexValidator = \<lparr>cls_name = ''RegexValidator'', title = ''Regex'', slug = ''regex''\<rparr>"
| "class_of RangeValidator = \<lparr>cls_name = ''RangeValidator'', title = ''Range'', slug = ''range''\<rparr>"
| "class_of ChoiceValidator = \<lparr>cls_name = ''ChoiceValidator'', title = ''Choice'', slug = ''choice''\<rparr>"
| "class_of BooleanValidator = \<lparr>cls_name = ''BooleanValidator'', title = ''Boolean'', slug = ''boolean''\<rparr>"
| "class_of MultipleChoiceValidator =
     \<lparr>cls_name = ''MultipleChoiceValidator'', title = ''Multiple Choice'', slug = ''multiple_choice''\<rparr>"

text \<open>
  \<open>ValidatorRegistry.validators\<close> is a class-level \<open>dict\<close>. A Python dict keeps insertion
  order and one entry per key; assigning to an existing key replaces the value in place.
  That is an association list changed with \<open>AList.update\<close>.
\<close>

type_synonym registry = "(string \<times> validator_type) list"

text \<open>
  \<open>register\<close> stores the class under its slug. The method body has no \<open>return\<close>
  statement, so the call evaluates to Python's \<open>None\<close>: the result component is
  \<open>None\<close>, next to the updated dict.
\<close>

definition register :: "validator_type \<Rightarrow> registry \<Rightarrow> validator_type option \<times> registry" where
  "register validator validators = (None, AList.update (slug validator) validator validators)"

text \<open>\<open>dict.get(slug)\<close>: the stored class, or \<open>None\<close> when the key is absent.\<close>

definition get_validator :: "registry \<Rightarrow> string \<Rightarrow> validator_type option" where
  "get_validator validators s = map_of validators s"

definition get_choices :: "registry \<Rightarrow> (string \<times> string) list" where
  "get_choices validators = map (\<lambda>(s, validator). (s, title validator)) validators"

text \<open>A sequence of \<open>register\<close> calls, oldest first, threading the dict through.\<close>

fun register_all :: "validator_type list \<Rightarrow> registry \<Rightarrow> registry" where
  "register_all [] validators = validators"
| "register_all (v # vs) validators = register_all vs (snd (register v validators))"

text \<open>
  Loading the module applies \<open>@register\<close> to each class statement in turn. A decorator
  binds the class's name to what the decorator returns, so the module state is the
  registry together with the five module-level names.
\<close>

definition decorate :: "builtin \<Rightarrow> registry \<Rightarrow> (string \<times> validator_type option) \<times> registry" where
  "decorate b validators =
     (let (r, validators') = register (class_of b) validators
      in ((cls_name (class_of b), r), validators'))"

fun load_classes :: "builtin list \<Rightarrow> registry \<Rightarrow> (string \<times> validator_type option) list \<times> registry" where
  "load_classes [] validators = ([], validators)"
| "load_classes (b # bs) validators =
     (let (binding, validators') = decorate b validators;
          (bindings, validators'') = load_classes bs validators'
      in (binding # bindings, validators''))"

definition module_load :: "(string \<times> validator_type option) list \<times> registry" where
  "module_load = load_classes
     [RegexValidator, RangeValidator, ChoiceValidator, BooleanValidator, MultipleChoiceValidator] []"

definition module_registry :: registry where
  "module_registry = snd module_load"

section \<open>Python strings\<close>

text \<open>
  A Python \<open>str\<close> is a sequence of code points; a \<open>char\<close> here is a code point below
  256 (ASCII and Latin-1). On these, \<open>str.lower\<close> moves \<open>A\<close>-\<open>Z\<close> and the Latin-1
  capitals (192-222 except the multiplication sign 215) up by 32 and leaves every other
  code point alone.
\<close>

definition lower_char :: "char \<Rightarrow> char" where
  "lower_char c =
     (let n = (of_char c :: nat)
      in if (65 \<le> n \<and> n \<le> 90) \<or> (192 \<le> n \<and> n \<le> 222 \<and> n \<noteq> 215)
         then char_of (n + 32) else c)"

definition lower :: "string \<Rightarrow> string" where
  "lower s = map lower_char s"

text \<open>
  The characters \<open>str.strip()\<close> removes (those with \<open>str.isspace\<close>): tab to carriage
  return, the separators 28-31, space, NEL and the no-break space.
\<close>

definition is_space :: "char \<Rightarrow> bool" where
  "is_space c =
     (let n = (of_char c :: nat)
      in (9 \<le> n \<and> n \<le> 13) \<or> (28 \<le> n \<and> n \<le> 32) \<or> n = 133 \<or> n = 160)"

definition strip :: "string \<Rightarrow> string" where
  "strip s = rev (dropWhile is_space (rev (dropWhile is_space s)))"

text \<open>\<open>s.split(d)\<close> for a one-character separator: always at least one piece.\<close>

fun split_acc :: "char \<Rightarrow> string \<Rightarrow> string \<Rightarrow> string list" where
  "split_acc d cur [] = [cur]"
| "split_acc d cur (c # cs) =
     (if c = d then cur # split_acc d [] cs else split_acc d (cur @ [c]) cs)"

definition split :: "char \<Rightarrow> string \<Rightarrow> string list" where
  "split d s = split_acc d [] s"

text \<open>\<open>sep.join(xs)\<close> on a list of strings.\<close>

fun join :: "string \<Rightarrow> string list \<Rightarrow> string" where
  "join sep [] = []"
| "join sep [x] = x"
| "join sep (x # y # ys) = x @ sep @ join sep (y # ys)"

section \<open>Python values, exceptions and keyword arguments\<close>

text \<open>
  A \<open>float\<close> is an IEEE binary64 value: a finite one is the rational number it denotes
  (the sign of zero is dropped: no operation of the module tells \<open>-0.0\<close> from \<open>0.0\<close>).
\<close>

datatype pyfloat = Finite rat | PosInf | NegInf | NaN

text \<open>
  The untyped values a configuration mapping can hold (for instance decoded from JSON);
  dict keys are strings.
\<close>

datatype pyval =
    PNone
  | PBool bool
  | PInt int
  | PFloat pyfloat
  | PStr string
  | PList "pyval list"
  | PDict "(string \<times> pyval) list"

type_synonym kwargs = "(string \<times> pyval) list"

text \<open>
  The exceptions of the module. A \<open>ValidationError\<close> (Django's, a direct subclass of
  \<open>Exception\<close>) carries its message template and the arguments of \<open>%\<close>; the
  \<open>ValueError\<close> carries its message and, for the message of \<open>initialize_from_kwargs\<close>,
  the set of parameter names formatted into it. \<open>ReError\<close> is \<open>re.error\<close>. The
  interpreter's own messages of \<open>TypeError\<close> and \<open>AttributeError\<close> are not modelled.
\<close>

datatype exn =
    ValidationError string "pyval list"
  | ValueError string "string set"
  | TypeError
  | AttributeError
  | KeyError
  | OverflowError
  | ReError

text \<open>Truth value testing (\<open>bool(x)\<close>).\<close>

fun truthy :: "pyval \<Rightarrow> bool" where
  "truthy PNone = False"
| "truthy (PBool b) = b"
| "truthy (PInt i) = (i \<noteq> 0)"
| "truthy (PFloat f) = (f \<noteq> Finite 0)"
| "truthy (PStr s) = (s \<noteq> [])"
| "truthy (PList xs) = (xs \<noteq> [])"
| "truthy (PDict d) = (d \<noteq> [])"

fun is_str :: "pyval \<Rightarrow> bool" where
  "is_str (PStr s) = True"
| "is_str _ = False"

fun is_list :: "pyval \<Rightarrow> bool" where
  "is_list (PList xs) = True"
| "is_list _ = False"

text \<open>\<open>d.get(k, default)\<close> on a dict, and \<open>kwargs.get(k)\<close> with the default \<open>None\<close>.\<close>

definition dict_get :: "(string \<times> pyval) list \<Rightarrow> string \<Rightarrow> pyval \<Rightarrow> pyval" where
  "dict_get d k dflt = (case map_of d k of None \<Rightarrow> dflt | Some v \<Rightarrow> v)"

text \<open>
  The attribute access \<open>x.get\<close> followed by the call: only a dict has the method, any
  other value raises \<open>AttributeError\<close>.
\<close>

fun py_get :: "pyval \<Rightarrow> string \<Rightarrow> exn + pyval" where
  "py_get (PDict d) k = Inr (dict_get d k PNone)"
| "py_get _ k = Inl AttributeError"

text \<open>
  Calling a function whose leading parameters \<open>bound\<close> are already filled positionally
  with \<open>**kwargs\<close>: a keyword that names one of them is a \<open>TypeError\<close> (multiple values
  for the argument); all other keywords go to the function's own \<open>**kwargs\<close>.
\<close>

definition call_with_kwargs :: "string list \<Rightarrow> kwargs \<Rightarrow> exn + unit" where
  "call_with_kwargs bound kwargs =
     (if \<exists>k \<in> set (map fst kwargs). k \<in> set bound then Inl TypeError else Inr ())"

text \<open>
  A bound method object such as \<open>str(x).isdigit\<close>, recorded by the method name and the
  argument \<open>x\<close> of \<open>str\<close>. A method object defines neither \<open>__bool__\<close> nor \<open>__len__\<close>,
  so its truth value is \<open>True\<close>.
\<close>

datatype bound_method = StrMethod string pyval

fun method_truthy :: "bound_method \<Rightarrow> bool" where
  "method_truthy (StrMethod name x) = True"

section \<open>Validator instances\<close>

text \<open>
  An instance is the class it was made from and the attributes \<open>__init__\<close> stored on
  \<open>self\<close>.
\<close>

datatype validator =
    RegexObj (self_pattern: pyval)
  | RangeObj (self_min_value: pyval) (self_max_value: pyval)
  | ChoiceObj (self_choices: pyval)
  | BooleanObj
  | MultipleChoiceObj (self_choices: pyval)

text \<open>The class attribute \<open>_kwargs_slug\<close>; \<open>BooleanValidator\<close> defines none.\<close>

fun kwargs_slug :: "builtin \<Rightarrow> string option" where
  "kwargs_slug RegexValidator = Some ''pattern''"
| "kwargs_slug RangeValidator = Some ''range''"
| "kwargs_slug ChoiceValidator = Some ''choices''"
| "kwargs_slug BooleanValidator = None"
| "kwargs_slug MultipleChoiceValidator = Some ''choices''"

text \<open>
  The parameter names of each class's \<open>__init__\<close>, in signature order;
  \<open>BooleanValidator\<close> inherits \<open>ValidatorBase.__init__\<close>.
\<close>

fun init_params :: "builtin \<Rightarrow> string list" where
  "init_params RegexValidator = [''self'', ''kwargs'']"
| "init_params RangeValidator = [''self'', ''kwargs'']"
| "init_params ChoiceValidator = [''self'', ''choices'']"
| "init_params BooleanValidator = [''self'', ''validator_kwargs'']"
| "init_params MultipleChoiceValidator = [''self'', ''kwargs'']"

definition get_instance_kwargs :: "string list \<Rightarrow> string set" where
  "get_instance_kwargs params = set params"

subsection \<open>validate_kwargs\<close>

text \<open>
  Each function is the body of the class's \<open>validate_kwargs\<close>; the call itself,
  \<open>cls.validate_kwargs(cls, **kwargs)\<close>, binds \<open>self\<close> positionally first.
\<close>

definition RegexValidator_validate_kwargs :: "kwargs \<Rightarrow> exn + unit" where
  "RegexValidator_validate_kwargs kwargs =
     (let pattern = dict_get kwargs ''pattern'' PNone
      in if \<not> (truthy pattern \<and> is_str pattern)
         then Inl (ValidationError ''Pattern is required'' [])
         else Inr ())"

definition RangeValidator_validate_kwargs :: "kwargs \<Rightarrow> exn + unit" where
  "RangeValidator_validate_kwargs kwargs =
     (let range = dict_get kwargs ''range'' (PDict [])
      in case py_get range ''min_value'' of
           Inl e \<Rightarrow> Inl e
         | Inr min_value \<Rightarrow>
            (case py_get range ''max_value'' of
               Inl e \<Rightarrow> Inl e
             | Inr max_value \<Rightarrow>
                 if \<not> list_all (\<lambda>v. v \<noteq> PNone) [min_value, max_value]
                 then Inl (ValidationError ''min_value and max_value are required'' [])
                 else if \<not> list_all method_truthy
                             (map (\<lambda>x. StrMethod ''isdigit'' x) [min_value, max_value])
                 then Inl (ValidationError ''min_value and max_value must be number'' [])
                 else Inr ()))"

definition ChoiceValidator_validate_kwargs :: "kwargs \<Rightarrow> exn + unit" where
  "ChoiceValidator_validate_kwargs kwargs =
     (let choices = dict_get kwargs ''choices'' PNone
      in if \<not> truthy choices then Inl (ValidationError ''Choices are required'' [])
         else if \<not> is_list choices then Inl (ValidationError ''Choices must be a list'' [])
         else Inr ())"

definition MultipleChoiceValidator_validate_kwargs :: "kwargs \<Rightarrow> exn + unit" where
  "MultipleChoiceValidator_validate_kwargs kwargs =
     (let choices = dict_get kwargs ''choices'' PNone
      in if \<not> truthy choices then Inl (ValidationError ''Choices are required'' [])
         else if \<not> is_list choices then Inl (ValidationError ''Choices must be a list'' [])
         else Inr ())"

text \<open>\<open>ValidatorBase.validate_kwargs\<close>, inherited by \<open>BooleanValidator\<close>: \<open>pass\<close>.\<close>

definition ValidatorBase_validate_kwargs :: "kwargs \<Rightarrow> exn + unit" where
  "ValidatorBase_validate_kwargs kwargs = Inr ()"

fun validate_kwargs_body :: "builtin \<Rightarrow> kwargs \<Rightarrow> exn + unit" where
  "validate_kwargs_body RegexValidator kwargs = RegexValidator_validate_kwargs kwargs"
| "validate_kwargs_body RangeValidator kwargs = RangeValidator_validate_kwargs kwargs"
| "validate_kwargs_body ChoiceValidator kwargs = ChoiceValidator_validate_kwargs kwargs"
| "validate_kwargs_body BooleanValidator kwargs = ValidatorBase_validate_kwargs kwargs"
| "validate_kwargs_body MultipleChoiceValidator kwargs = MultipleChoiceValidator_validate_kwargs kwargs"

definition validate_kwargs :: "builtin \<Rightarrow> kwargs \<Rightarrow> exn + unit" where
  "validate_kwargs cls kwargs =
     (case call_with_kwargs [''self''] kwargs of
        Inl e \<Rightarrow> Inl e
      | Inr _ \<Rightarrow> validate_kwargs_body cls kwargs)"

subsection \<open>Construction\<close>

definition RegexValidator_init :: "kwargs \<Rightarrow> exn + validator" where
  "RegexValidator_init kwargs =
     (case call_with_kwargs [''self''] kwargs of
        Inl e \<Rightarrow> Inl e
      | Inr _ \<Rightarrow> Inr (RegexObj (dict_get kwargs ''pattern'' PNone)))"

definition RangeValidator_init :: "kwargs \<Rightarrow> exn + validator" where
  "RangeValidator_init kwargs =
     (case call_with_kwargs [''self''] kwargs of
        Inl e \<Rightarrow> Inl e
      | Inr _ \<Rightarrow>
          (let range = dict_get kwargs ''range'' (PDict [])
           in case py_get range ''min_value'' of
                Inl e \<Rightarrow> Inl e
              | Inr min_value \<Rightarrow>
                 (case py_get range ''max_value'' of
                    Inl e \<Rightarrow> Inl e
                  | Inr max_value \<Rightarrow> Inr (RangeObj min_value max_value))))"

text \<open>
  \<open>ChoiceValidator.__init__(self, choices)\<close> has no \<open>**kwargs\<close>: the keywords must be
  exactly \<open>choices\<close>, anything missing or unexpected is a \<open>TypeError\<close>.
\<close>

definition ChoiceValidator_init :: "kwargs \<Rightarrow> exn + validator" where
  "ChoiceValidator_init kwargs =
     (if set (map fst kwargs) = {''choices''}
      then Inr (ChoiceObj (dict_get kwargs ''choices'' PNone))
      else Inl TypeError)"

definition ValidatorBase_init :: "kwargs \<Rightarrow> exn + validator" where
  "ValidatorBase_init kwargs =
     (case call_with_kwargs [''self''] kwargs of
        Inl e \<Rightarrow> Inl e
      | Inr _ \<Rightarrow> Inr BooleanObj)"

definition MultipleChoiceValidator_init :: "kwargs \<Rightarrow> exn + validator" where
  "MultipleChoiceValidator_init kwargs =
     (case call_with_kwargs [''self''] kwargs of
        Inl e \<Rightarrow> Inl e
      | Inr _ \<Rightarrow> Inr (MultipleChoiceObj (dict_get kwargs ''choices'' (PList []))))"

text \<open>The call \<open>cls(**kwargs)\<close>: the \<open>__init__\<close> of the class.\<close>

fun cls_call :: "builtin \<Rightarrow> kwargs \<Rightarrow> exn + validator" where
  "cls_call RegexValidator kwargs = RegexValidator_init kwargs"
| "cls_call RangeValidator kwargs = RangeValidator_init kwargs"
| "cls_call ChoiceValidator kwargs = ChoiceValidator_init kwargs"
| "cls_call BooleanValidator kwargs = ValidatorBase_init kwargs"
| "cls_call MultipleChoiceValidator kwargs = MultipleChoiceValidator_init kwargs"

text \<open>
  \<open>contextlib.suppress(KeyError, AttributeError, ValueError)\<close>: the exceptions the
  \<open>with\<close> block swallows. \<open>ValidationError\<close> and \<open>TypeError\<close> are subclasses of none of
  the three.
\<close>

fun suppressed :: "exn \<Rightarrow> bool" where
  "suppressed KeyError = True"
| "suppressed AttributeError = True"
| "suppressed (ValueError m ps) = True"
| "suppressed (ValidationError m args) = False"
| "suppressed TypeError = False"
| "suppressed OverflowError = False"
| "suppressed ReError = False"

definition invalid_kwargs :: "builtin \<Rightarrow> exn" where
  "invalid_kwargs cls =
     ValueError (''Invalid kwargs for '' @ cls_name (class_of cls) @ ''. Valid kwargs are '')
       (get_instance_kwargs (init_params cls))"

text \<open>
  \<open>initialize_from_kwargs\<close>: inside the \<open>with\<close> block, \<open>validate_kwargs\<close> and then
  \<open>return cls(**kwargs)\<close>; a suppressed exception leaves the block and reaches the
  \<open>raise ValueError\<close> after it, any other exception propagates. The classmethod binds
  \<open>cls\<close> positionally before \<open>**kwargs\<close>.
\<close>

definition initialize_from_kwargs :: "builtin \<Rightarrow> kwargs \<Rightarrow> exn + validator" where
  "initialize_from_kwargs cls kwargs =
     (case call_with_kwargs [''cls''] kwargs of
        Inl e \<Rightarrow> Inl e
      | Inr _ \<Rightarrow>
          (case (case validate_kwargs cls kwargs of
                   Inl e \<Rightarrow> Inl e
                 | Inr _ \<Rightarrow> cls_call cls kwargs) of
             Inr obj \<Rightarrow> Inr obj
           | Inl e \<Rightarrow> if suppressed e then Inl (invalid_kwargs cls) else Inl e))"

section \<open>BooleanValidator\<close>

text \<open>
  Raw values are Python strings (the value is string-typed where it enters the module);
  \<open>str(value)\<close> of a \<open>str\<close> is the value itself.
\<close>

definition BooleanValidator_validate :: "validator \<Rightarrow> string \<Rightarrow> exn + unit" where
  "BooleanValidator_validate self value =
     (if lower value \<notin> {''true'', ''false''}
      then Inl (ValidationError ''Value must be 'true' or 'false'.'' [])
      else Inr ())"

definition BooleanValidator_to_value :: "validator \<Rightarrow> string \<Rightarrow> bool" where
  "BooleanValidator_to_value self value = (lower value = ''true'')"

section \<open>MultipleChoiceValidator\<close>

text \<open>
  A \<open>map\<close> object is an iterator: it yields each item once. It is modelled by the list
  of items it has yet to yield. \<open>list(it)\<close> and \<open>set(it)\<close> draw every remaining item
  and leave the iterator exhausted, so both return their result together with the
  iterator's new state.
\<close>

type_synonym 'a iterator = "'a list"

definition py_list :: "'a iterator \<Rightarrow> 'a list \<times> 'a iterator" where
  "py_list it = (it, [])"

definition py_set :: "'a iterator \<Rightarrow> 'a set \<times> 'a iterator" where
  "py_set it = (set it, [])"

text \<open>
  Iterating a value: a list yields its items, a string its characters (as one-character
  strings), a dict its keys; the other values are not iterable.
\<close>

fun py_iter :: "pyval \<Rightarrow> exn + pyval list" where
  "py_iter (PList xs) = Inr xs"
| "py_iter (PStr s) = Inr (map (\<lambda>c. PStr [c]) s)"
| "py_iter (PDict d) = Inr (map (\<lambda>(k, v). PStr k) d)"
| "py_iter _ = Inl TypeError"

text \<open>
  \<open>v in map(str.lower, xs)\<close>: the items are lowered one at a time until one equals
  \<open>v\<close>; \<open>str.lower\<close> applied to an item that is not a \<open>str\<close> raises \<open>TypeError\<close>.
\<close>

fun in_lowered :: "string \<Rightarrow> pyval list \<Rightarrow> exn + bool" where
  "in_lowered v [] = Inr False"
| "in_lowered v (PStr s # xs) = (if lower s = v then Inr True else in_lowered v xs)"
| "in_lowered v (x # xs) = Inl TypeError"

text \<open>
  \<open>all(v in map(str.lower, choices) for v in it)\<close>: draws items from the iterator up to
  the first one that is not among the choices.
\<close>

fun all_in_choices :: "string iterator \<Rightarrow> pyval \<Rightarrow> exn + bool" where
  "all_in_choices [] cs = Inr True"
| "all_in_choices (v # vs) cs =
     (case py_iter cs of
        Inl e \<Rightarrow> Inl e
      | Inr xs \<Rightarrow>
          (case in_lowered v xs of
             Inl e \<Rightarrow> Inl e
           | Inr found \<Rightarrow> if found then all_in_choices vs cs else Inr False))"

text \<open>\<open>sep.join(x)\<close>: every item must be a \<open>str\<close>.\<close>

fun str_items :: "pyval list \<Rightarrow> exn + string list" where
  "str_items [] = Inr []"
| "str_items (PStr s # xs) =
     (case str_items xs of Inl e \<Rightarrow> Inl e | Inr ss \<Rightarrow> Inr (s # ss))"
| "str_items (x # xs) = Inl TypeError"

definition py_join :: "string \<Rightarrow> pyval \<Rightarrow> exn + string" where
  "py_join sep x =
     (case py_iter x of
        Inl e \<Rightarrow> Inl e
      | Inr xs \<Rightarrow> (case str_items xs of Inl e \<Rightarrow> Inl e | Inr ss \<Rightarrow> Inr (join sep ss)))"

text \<open>
  \<open>validate\<close>: \<open>selected_values\<close> is the one map object; the three places that read it
  (\<open>list\<close>, \<open>set\<close>, the generator under \<open>all\<close>) each continue from the state the
  previous one left.
\<close>

definition MultipleChoiceValidator_validate :: "validator \<Rightarrow> string \<Rightarrow> exn + unit" where
  "MultipleChoiceValidator_validate self value =
     (let selected_values = map lower (map strip (split CHR '','' value));
          (as_list, selected_values) = py_list selected_values;
          (as_set, selected_values) = py_set selected_values
      in if length as_list \<noteq> card as_set
         then Inl (ValidationError ''Duplicate choices are not allowed'' [])
         else (case all_in_choices selected_values (self_choices self) of
                 Inl e \<Rightarrow> Inl e
               | Inr ok \<Rightarrow>
                   if \<not> ok
                   then (case py_join '', '' (self_choices self) of
                           Inl e \<Rightarrow> Inl e
                         | Inr s \<Rightarrow>
                             Inl (ValidationError ''Invalid choices. Valid choices are: %s'' [PStr s]))
                   else Inr ()))"

section \<open>RangeValidator\<close>

subsection \<open>float(str)\<close>














subsection \<open>Comparison and narrowing\<close>






subsection \<open>validate and to_value\<close>





section \<open>RegexValidator\<close>

subsection \<open>The re module\<close>

text \<open>
  The standard library's \<open>re\<close> is not code of the module; what \<open>validate\<close> needs from
  it is the meaning it gives a pattern. That meaning is a relation \<open>span s i j\<close>: the
  pattern matches the string \<open>s\<close> from position \<open>i\<close> up to position \<open>j\<close> (the characters
  \<open>s[i:j]\<close>, read inside \<open>s\<close>, so that anchors see where they are). The library's
  compiler is a parameter of the model: it maps a pattern text to its meaning, or raises
  \<open>re.error\<close> for a text that is no pattern.
\<close>

type_synonym span = "string \<Rightarrow> nat \<Rightarrow> nat \<Rightarrow> bool"

type_synonym regex_engine = "string \<Rightarrow> exn + span"

text \<open>
  \<open>re.match(pattern, string)\<close>: a match object (\<open>True\<close>) if zero or more characters at
  the beginning of the string match the pattern, \<open>None\<close> (\<open>False\<close>) otherwise.
\<close>

definition re_match :: "regex_engine \<Rightarrow> string \<Rightarrow> string \<Rightarrow> exn + bool" where
  "re_match re p s =
     (case re p of
        Inl e \<Rightarrow> Inl e
      | Inr sp \<Rightarrow> Inr (list_ex (\<lambda>j. sp s 0 j) [0..<Suc (length s)]))"

text \<open>
  For comparison, the two functions \<open>validate\<close> does not call: \<open>re.fullmatch\<close> (the whole
  string matches) and \<open>re.search\<close> (a match starting at any position).
\<close>

definition re_fullmatch :: "regex_engine \<Rightarrow> string \<Rightarrow> string \<Rightarrow> exn + bool" where
  "re_fullmatch re p s =
     (case re p of
        Inl e \<Rightarrow> Inl e
      | Inr sp \<Rightarrow> Inr (sp s 0 (length s)))"

definition re_search :: "regex_engine \<Rightarrow> string \<Rightarrow> string \<Rightarrow> exn + bool" where
  "re_search re p s =
     (case re p of
        Inl e \<Rightarrow> Inl e
      | Inr sp \<Rightarrow>
          Inr (list_ex (\<lambda>i. list_ex (\<lambda>j. sp s i j) [i..<Suc (length s)]) [0..<Suc (length s)]))"

subsection \<open>validate\<close>

text \<open>
  \<open>self.pattern\<close> is whatever the constructor found under \<open>pattern\<close>; \<open>re.match\<close> raises
  \<open>TypeError\<close> for a pattern that is no string, and \<open>re.error\<close> for a string that is no
  pattern. A match object is always true.
\<close>

definition RegexValidator_validate :: "regex_engine \<Rightarrow> validator \<Rightarrow> string \<Rightarrow> exn + unit" where
  "RegexValidator_validate re self value =
     (case self_pattern self of
        PStr p \<Rightarrow>
          (case re_match re p value of
             Inl e \<Rightarrow> Inl e
           | Inr found \<Rightarrow>
               if \<not> found then Inl (ValidationError ''Value does not match regex'' [])
               else Inr ())
      | _ \<Rightarrow> Inl TypeError)"

subsection \<open>The meaning of a fragment of the pattern language\<close>

text \<open>
  The meaning of the patterns built from ordinary characters, \<open>.\<close> (any character but a
  newline), the anchors \<open>^\<close> and \<open>$\<close>, and the greedy quantifiers \<open>*\<close>, \<open>+\<close> and \<open>?\<close>
  on a single character or \<open>.\<close>, with no flags. \<open>re_parse\<close> reads such a pattern and
  gives \<open>None\<close> for every other text (escapes, classes, groups, alternation, braces, lazy
  or possessive quantifiers, a quantifier with nothing to repeat).
\<close>

datatype atom = Lit char | Dot

datatype item = One atom | Star atom | Plus atom | Opt atom | Bol | Eol

definition special :: "char \<Rightarrow> bool" where
  "special c = (c \<in> set (''.^$*+?{}[]|()'' @ [CHR 0x5C]))"

definition quantifier :: "char \<Rightarrow> bool" where
  "quantifier c = (c = CHR ''*'' \<or> c = CHR ''+'' \<or> c = CHR ''?'')"

definition parse_atom :: "char \<Rightarrow> atom option" where
  "parse_atom c = (if c = CHR ''.'' then Some Dot else if special c then None else Some (Lit c))"

definition quantified :: "char \<Rightarrow> atom \<Rightarrow> item" where
  "quantified q a = (if q = CHR ''*'' then Star a else if q = CHR ''+'' then Plus a else Opt a)"

fun re_parse :: "string \<Rightarrow> item list option" where
  "re_parse [] = Some []"
| "re_parse (c # cs) =
     (if c = CHR ''^'' then map_option ((#) Bol) (re_parse cs)
      else if c = CHR ''$'' then map_option ((#) Eol) (re_parse cs)
      else (case parse_atom c of
              None \<Rightarrow> None
            | Some a \<Rightarrow>
                (case cs of
                   [] \<Rightarrow> Some [One a]
                 | q # rest \<Rightarrow>
                     if quantifier q then map_option ((#) (quantified q a)) (re_parse rest)
                     else map_option ((#) (One a)) (re_parse cs))))"

fun atom_matches :: "atom \<Rightarrow> char \<Rightarrow> bool" where
  "atom_matches (Lit c) x = (x = c)"
| "atom_matches Dot x = (x \<noteq> CHR 0x0A)"

text \<open>
  \<open>match_len ps at_start s n\<close>: the items \<open>ps\<close> match exactly the first \<open>n\<close> characters
  of the rest \<open>s\<close> of the string; \<open>at_start\<close> tells whether the rest is the whole string.
  \<open>^\<close> holds only there; \<open>$\<close> holds at the end of the string and before a final
  newline. A quantifier may take any number of repetitions it allows.
\<close>

fun match_len :: "item list \<Rightarrow> bool \<Rightarrow> string \<Rightarrow> nat \<Rightarrow> bool" where
  "match_len [] at_start s n = (n = 0)"
| "match_len (Bol # ps) at_start s n = (at_start \<and> match_len ps at_start s n)"
| "match_len (Eol # ps) at_start s n = ((s = [] \<or> s = [CHR 0x0A]) \<and> match_len ps at_start s n)"
| "match_len (One a # ps) at_start [] n = False"
| "match_len (One a # ps) at_start (x # xs) n =
     (case n of 0 \<Rightarrow> False | Suc m \<Rightarrow> atom_matches a x \<and> match_len ps False xs m)"
| "match_len (Opt a # ps) at_start [] n = match_len ps at_start [] n"
| "match_len (Opt a # ps) at_start (x # xs) n =
     ((case n of 0 \<Rightarrow> False | Suc m \<Rightarrow> atom_matches a x \<and> match_len ps False xs m)
      \<or> match_len ps at_start (x # xs) n)"
| "match_len (Star a # ps) at_start [] n = match_len ps at_start [] n"
| "match_len (Star a # ps) at_start (x # xs) n =
     ((case n of 0 \<Rightarrow> False | Suc m \<Rightarrow> atom_matches a x \<and> match_len (Star a # ps) False xs m)
      \<or> match_len ps at_start (x # xs) n)"
| "match_len (Plus a # ps) at_start [] n = False"
| "match_len (Plus a # ps) at_start (x # xs) n =
     (case n of 0 \<Rightarrow> False | Suc m \<Rightarrow> atom_matches a x \<and> match_len (Star a # ps) False xs m)"

definition fragment_span :: "item list \<Rightarrow> span" where
  "fragment_span ps s i j =
     (i \<le> j \<and> j \<le> length s \<and> match_len ps (i = 0) (drop i s) (j - i))"

text \<open>
  An engine agrees with the fragment when it gives every pattern of the fragment this
  meaning; nothing is asked of it on other texts.
\<close>

definition agrees_on_fragment :: "regex_engine \<Rightarrow> bool" where
  "agrees_on_fragment re = (\<forall>p ps. re_parse p = Some ps \<longrightarrow> re p = Inr (fragment_span ps))"

text \<open>
  The engine that knows the fragment and nothing else: a concrete engine on which the
  statements about all engines can be evaluated.
\<close>

definition fragment_engine :: regex_engine where
  "fragment_engine p =
     (case re_parse p of
        None \<Rightarrow> Inl ReError
      | Some ps \<Rightarrow> Inr (fragment_span ps))"

section \<open>Registry properties\<close>

lemma map_of_register:
  "map_of (snd (register v r)) = (map_of r)(slug v \<mapsto> v)"
  by (simp add: register_def update_conv')

lemma distinct_register:
  "distinct (map fst r) \<Longrightarrow> distinct (map fst (snd (register v r)))"
  by (simp add: register_def distinct_update)

lemma distinct_register_all:
  "distinct (map fst r) \<Longrightarrow> distinct (map fst (register_all vs r))"
  by (induction vs arbitrary: r) (simp_all add: distinct_register)

lemma find_snoc:
  "List.find P (xs @ [x]) = (case List.find P xs of Some y \<Rightarrow> Some y | None \<Rightarrow> (if P x then Some x else None))"
  by (induction xs) simp_all

lemma find_rev_Cons:
  "List.find P (rev (x # xs)) =
     (case List.find P (rev xs) of Some y \<Rightarrow> Some y | None \<Rightarrow> (if P x then Some x else None))"
  by (simp add: find_snoc)

lemma map_of_register_all:
  "map_of (register_all vs r) s =
     (case List.find (\<lambda>v. slug v = s) (rev vs) of Some v \<Rightarrow> Some v | None \<Rightarrow> map_of r s)"
proof (induction vs arbitrary: r)
  case Nil
  show ?case by simp
next
  case (Cons v vs)
  show ?case
    by (simp add: Cons.IH map_of_register find_rev_Cons del: rev.simps split: option.splits)
qed

lemma module_registry_eq:
  "module_registry =
     [(''regex'', class_of RegexValidator), (''range'', class_of RangeValidator), (''choice'', class_of ChoiceValidator),
      (''boolean'', class_of BooleanValidator), (''multiple_choice'', class_of MultipleChoiceValidator)]"
  by (simp add: module_registry_def module_load_def decorate_def register_def)


lemma set_fst_register:
  "fst ` set (snd (register v r)) = insert (slug v) (fst ` set r)"
proof -
  have "dom (map_of (snd (register v r))) = insert (slug v) (dom (map_of r))"
    by (simp add: map_of_register)
  then show ?thesis by (simp add: dom_map_of_conv_image_fst)
qed

lemma set_fst_register_all:
  "fst ` set (register_all vs r) = slug ` set vs \<union> fst ` set r"
proof (induction vs arbitrary: r)
  case Nil
  show ?case by simp
next
  case (Cons v vs)
  have "fst ` set (register_all (v # vs) r) =
          slug ` set vs \<union> fst ` set (snd (register v r))"
    using Cons.IH [of "snd (register v r)"] by simp
  also have "\<dots> = slug ` set (v # vs) \<union> fst ` set r"
    unfolding set_fst_register by auto
  finally show ?case .
qed

lemma length_update_present:
  "k \<in> fst ` set al \<Longrightarrow> length (AList.update k v al) = length al"
  by (induction al) auto

lemma find_slug_sound:
  "List.find (\<lambda>v. slug v = s) xs = Some w \<Longrightarrow> slug w = s \<and> w \<in> set xs"
  by (induction xs) (auto split: if_splits)

text \<open>
  C5. After any sequence of registrations into the empty registry: whatever
  \<open>get_validator\<close> returns for a slug is a registered class with that slug; the class
  returned is the one registered last under the slug; the dict holds one entry per slug,
  and its keys are exactly the registered slugs; registering a class makes it the one
  found under its slug, without adding an entry when the slug was already a key.
\<close>

theorem registry_slug_invariant:
  "(\<forall>s v. get_validator (register_all vs []) s = Some v \<longrightarrow> slug v = s \<and> v \<in> set vs)
   \<and> get_validator (register_all vs []) s = List.find (\<lambda>v. slug v = s) (rev vs)
   \<and> distinct (map fst (register_all vs []))
   \<and> fst ` set (register_all vs []) = slug ` set vs
   \<and> get_validator (snd (register w (register_all vs []))) (slug w) = Some w
   \<and> (slug w \<in> slug ` set vs \<longrightarrow>
        length (snd (register w (register_all vs []))) = length (register_all vs []))"
proof -
  have look: "get_validator (register_all vs []) t = List.find (\<lambda>v. slug v = t) (rev vs)" for t
    by (simp add: get_validator_def map_of_register_all split: option.splits)
  have sound: "\<forall>t v. get_validator (register_all vs []) t = Some v \<longrightarrow> slug v = t \<and> v \<in> set vs"
  proof (intro allI impI)
    fix t v
    assume "get_validator (register_all vs []) t = Some v"
    then have "List.find (\<lambda>v. slug v = t) (rev vs) = Some v" by (simp only: look)
    then have "slug v = t \<and> v \<in> set (rev vs)" by (rule find_slug_sound)
    then show "slug v = t \<and> v \<in> set vs" by simp
  qed
  have dist: "distinct (map fst (register_all vs []))"
    by (rule distinct_register_all) simp
  have keys: "fst ` set (register_all vs []) = slug ` set vs"
    using set_fst_register_all [of vs "[]"] by simp
  have last: "get_validator (snd (register w (register_all vs []))) (slug w) = Some w"
    by (simp add: get_validator_def map_of_register)
  have same: "length (snd (register w (register_all vs []))) = length (register_all vs [])"
    if "slug w \<in> slug ` set vs"
  proof -
    from that keys have "slug w \<in> fst ` set (register_all vs [])" by simp
    then show ?thesis by (simp add: register_def length_update_present)
  qed
  from same have same': "slug w \<in> slug ` set vs \<longrightarrow>
      length (snd (register w (register_all vs []))) = length (register_all vs [])" ..
  show ?thesis
    by (intro conjI) (rule sound, rule look, rule dist, rule keys, rule last, rule same')
qed

theorem registry_slug_invariant_witness:
  "get_validator
     (register_all
        [class_of RegexValidator, \<lparr>cls_name = ''Other'', title = ''Other'', slug = ''regex''\<rparr>] [])
     ''regex''
   = Some \<lparr>cls_name = ''Other'', title = ''Other'', slug = ''regex''\<rparr>
   \<and> slug \<lparr>cls_name = ''Other'', title = ''Other'', slug = ''regex''\<rparr> = ''regex''
   \<and> ''regex'' \<in> slug ` set [class_of RegexValidator]
   \<and> length (snd (register \<lparr>cls_name = ''Other'', title = ''Other'', slug = ''regex''\<rparr>
                  (register_all [class_of RegexValidator] [])))
       = length (register_all [class_of RegexValidator] [])"
  using registry_slug_invariant
    [of "[class_of RegexValidator, \<lparr>cls_name = ''Other'', title = ''Other'', slug = ''regex''\<rparr>]"
        "''regex''" "\<lparr>cls_name = ''Other'', title = ''Other'', slug = ''regex''\<rparr>"]
    registry_slug_invariant
    [of "[class_of RegexValidator]" "''regex''"
        "\<lparr>cls_name = ''Other'', title = ''Other'', slug = ''regex''\<rparr>"]
  by simp

text \<open>
  C6. \<open>get_validator\<close> is a total lookup: for a slug that is not a key of the registry
  the result is \<open>None\<close>, a value and not an exception; so it is for every slug that no
  registration used.
\<close>

theorem get_validator_unknown:
  "(s \<notin> fst ` set validators \<longrightarrow> get_validator validators s = None)
   \<and> (s \<notin> slug ` set vs \<longrightarrow> get_validator (register_all vs []) s = None)"
proof -
  have "get_validator validators s = None" if "s \<notin> fst ` set validators"
    using that by (simp add: get_validator_def map_of_eq_None_iff)
  moreover have "get_validator (register_all vs []) s = None" if "s \<notin> slug ` set vs"
  proof -
    from that have "s \<notin> fst ` set (register_all vs [])"
      using set_fst_register_all [of vs "[]"] by simp
    then show ?thesis by (simp add: get_validator_def map_of_eq_None_iff)
  qed
  ultimately show ?thesis by blast
qed

theorem get_validator_unknown_witness:
  "''nonexistent'' \<notin> fst ` set module_registry
   \<and> get_validator module_registry ''nonexistent'' = None"
  using get_validator_unknown [of "''nonexistent''" module_registry]
  by (simp add: module_registry_eq)

text \<open>
  C2. What the code does: \<open>register\<close> stores the class under its slug and evaluates to
  \<open>None\<close>, not to the class; loading the module therefore binds each decorated class name
  to \<open>None\<close>, while the registry holds the five classes.
\<close>

theorem register_returns_None:
  "fst (register validator validators) = None
   \<and> get_validator (snd (register validator validators)) (slug validator) = Some validator
   \<and> fst module_load =
       [(''RegexValidator'', None), (''RangeValidator'', None), (''ChoiceValidator'', None),
        (''BooleanValidator'', None), (''MultipleChoiceValidator'', None)]"
  by (simp add: get_validator_def map_of_register)
     (simp add: register_def module_load_def decorate_def)


section \<open>MultipleChoiceValidator and BooleanValidator\<close>

lemma split_acc_not_Nil: "split_acc d cur s \<noteq> []"
  by (induction s arbitrary: cur) simp_all

lemma split_not_Nil: "split d s \<noteq> []"
  by (simp add: split_def split_acc_not_Nil)

text \<open>
  C1. What the code does: \<open>list(selected_values)\<close> exhausts the map object, so the
  \<open>set(selected_values)\<close> that follows is empty, while the list has at least one token.
  The two lengths always differ: \<open>validate\<close> raises the duplicate-choices error for every
  validator and every raw value, among them \<open>"a, B"\<close> (which the claim accepts) and
  \<open>"a,z"\<close> (for which the claim expects the invalid-choices error).
\<close>

theorem multiple_choice_validate_always_duplicate:
  "MultipleChoiceValidator_validate self value
     = Inl (ValidationError ''Duplicate choices are not allowed'' [])
   \<and> MultipleChoiceValidator_validate
         (MultipleChoiceObj (PList [PStr ''a'', PStr ''b'', PStr ''c''])) ''a, B''
     = Inl (ValidationError ''Duplicate choices are not allowed'' [])
   \<and> MultipleChoiceValidator_validate
         (MultipleChoiceObj (PList [PStr ''a'', PStr ''b'', PStr ''c''])) ''a,z''
     = Inl (ValidationError ''Duplicate choices are not allowed'' [])"
proof -
  have "MultipleChoiceValidator_validate obj raw
          = Inl (ValidationError ''Duplicate choices are not allowed'' [])" for obj raw
    using split_not_Nil [of "CHR '',''" raw]
    by (simp add: MultipleChoiceValidator_validate_def py_list_def py_set_def)
  then show ?thesis by simp
qed

lemma lower_TRUE: "lower ''TRUE'' = ''true''"
  by code_simp

lemma lower_maybe: "lower ''maybe'' = ''maybe''"
  by code_simp

text \<open>
  C9. \<open>BooleanValidator.validate\<close> returns normally exactly when the lowercased raw
  value is \<open>true\<close> or \<open>false\<close>, and otherwise raises its \<open>ValidationError\<close>; \<open>to_value\<close>
  is the truth of "the lowercased raw value is \<open>true\<close>". So \<open>validate("maybe")\<close> fails,
  \<open>to_value("TRUE")\<close> is true and \<open>to_value("maybe")\<close> is false.
\<close>

theorem boolean_validator_spec:
  "(BooleanValidator_validate self value = Inr ())
      = (lower value = ''true'' \<or> lower value = ''false'')
   \<and> (BooleanValidator_validate self value = Inl (ValidationError ''Value must be 'true' or 'false'.'' []))
      = (lower value \<noteq> ''true'' \<and> lower value \<noteq> ''false'')
   \<and> BooleanValidator_to_value self value = (lower value = ''true'')
   \<and> BooleanValidator_validate self ''maybe''
      = Inl (ValidationError ''Value must be 'true' or 'false'.'' [])
   \<and> BooleanValidator_to_value self ''TRUE'' = True
   \<and> BooleanValidator_to_value self ''maybe'' = False"
  by (simp add: BooleanValidator_validate_def BooleanValidator_to_value_def
        lower_TRUE lower_maybe)

section \<open>Configuration checks and construction\<close>

lemma py_get_error: "py_get x k = Inl e \<Longrightarrow> e = AttributeError"
  by (cases x) simp_all

text \<open>
  C4. What the code does: the check maps each bound to the method object
  \<open>str(x).isdigit\<close> without calling it, and a method object is true. So the "must be
  number" error is never raised: a range with the bounds \<open>-1\<close> and \<open>1.5\<close>, or with
  bounds that are no numbers at all, passes \<open>validate_kwargs\<close>.
\<close>

theorem range_validate_kwargs_never_checks_digits:
  "RangeValidator_validate_kwargs
     [(''range'', PDict [(''min_value'', PInt (- 1)), (''max_value'', PFloat (Finite (3 / 2)))])]
     = Inr ()
   \<and> RangeValidator_validate_kwargs
     [(''range'', PDict [(''min_value'', PStr ''-1''), (''max_value'', PStr ''abc'')])]
     = Inr ()
   \<and> RangeValidator_validate_kwargs kwargs
     \<noteq> Inl (ValidationError ''min_value and max_value must be number'' [])"
proof -
  have "RangeValidator_validate_kwargs kwargs
          \<noteq> Inl (ValidationError ''min_value and max_value must be number'' [])"
    by (auto simp: RangeValidator_validate_kwargs_def Let_def split: sum.splits
          dest: py_get_error)
  then show ?thesis
    by (simp add: RangeValidator_validate_kwargs_def dict_get_def)
qed

lemma call_with_kwargs_cases:
  "call_with_kwargs bound kwargs =
     (if \<forall>k \<in> fst ` set kwargs. k \<notin> set bound then Inr () else Inl TypeError)"
  by (auto simp: call_with_kwargs_def)

text \<open>
  C10. \<open>ChoiceValidator\<close> with a non-empty \<open>choices\<close> list and any further keyword: the
  result of \<open>initialize_from_kwargs\<close> is the \<open>TypeError\<close> itself, which is not one of the
  suppressed kinds and is not the uniform \<open>ValueError\<close>. When the further keyword is not
  \<open>self\<close> or \<open>cls\<close>, \<open>validate_kwargs\<close> has passed and the \<open>TypeError\<close> is the
  constructor's.
\<close>

theorem choice_extra_keyword_type_error:
  assumes "map_of kwargs ''choices'' = Some (PList cs)" and "cs \<noteq> []"
    and "k \<in> fst ` set kwargs" and "k \<noteq> ''choices''"
  shows "initialize_from_kwargs ChoiceValidator kwargs = Inl TypeError
    \<and> \<not> suppressed TypeError
    \<and> TypeError \<noteq> invalid_kwargs ChoiceValidator
    \<and> (''self'' \<notin> fst ` set kwargs \<and> ''cls'' \<notin> fst ` set kwargs \<longrightarrow>
          validate_kwargs ChoiceValidator kwargs = Inr ()
          \<and> ChoiceValidator_init kwargs = Inl TypeError)"
proof -
  have body: "ChoiceValidator_validate_kwargs kwargs = Inr ()"
    using assms(1,2) by (simp add: ChoiceValidator_validate_kwargs_def dict_get_def)
  have "fst ` set kwargs \<noteq> {''choices''}"
    using assms(3,4) by auto
  then have init: "ChoiceValidator_init kwargs = Inl TypeError"
    by (simp add: ChoiceValidator_init_def)
  have vk: "validate_kwargs ChoiceValidator kwargs = Inr () \<or>
            validate_kwargs ChoiceValidator kwargs = Inl TypeError"
    by (simp add: validate_kwargs_def call_with_kwargs_cases body)
  have vk_ok: "validate_kwargs ChoiceValidator kwargs = Inr ()"
    if "''self'' \<notin> fst ` set kwargs"
    using that by (force simp: validate_kwargs_def call_with_kwargs_cases body)
  have "initialize_from_kwargs ChoiceValidator kwargs = Inl TypeError"
    using vk by (auto simp: initialize_from_kwargs_def call_with_kwargs_cases init)
  then show ?thesis
    using vk_ok init by (simp add: invalid_kwargs_def)
qed

theorem choice_extra_keyword_type_error_witness:
  "map_of [(''choices'', PList [PStr ''a'']), (''extra'', PInt 1)] ''choices''
     = Some (PList [PStr ''a''])
   \<and> [PStr ''a''] \<noteq> []
   \<and> ''extra'' \<in> fst ` set [(''choices'', PList [PStr ''a'']), (''extra'', PInt 1)]
   \<and> ''extra'' \<noteq> ''choices''
   \<and> initialize_from_kwargs ChoiceValidator
        [(''choices'', PList [PStr ''a'']), (''extra'', PInt 1)] = Inl TypeError
   \<and> validate_kwargs ChoiceValidator
        [(''choices'', PList [PStr ''a'']), (''extra'', PInt 1)] = Inr ()
   \<and> ChoiceValidator_init
        [(''choices'', PList [PStr ''a'']), (''extra'', PInt 1)] = Inl TypeError"
  using choice_extra_keyword_type_error
    [of "[(''choices'', PList [PStr ''a'']), (''extra'', PInt 1)]" "[PStr ''a'']" "''extra''"]
  by simp


section \<open>initialize_from_kwargs\<close>


lemma call_with_kwargs_single:
  "call_with_kwargs [b] kwargs = (if b \<in> fst ` set kwargs then Inl TypeError else Inr ())"
  by (force simp: call_with_kwargs_def)





lemma initialize_unfold:
  "initialize_from_kwargs cls kwargs =
     (if ''cls'' \<in> fst ` set kwargs then Inl TypeError
      else if ''self'' \<in> fst ` set kwargs then Inl TypeError
      else (case validate_kwargs_body cls kwargs of
              Inl e \<Rightarrow> if suppressed e then Inl (invalid_kwargs cls) else Inl e
            | Inr u \<Rightarrow>
                (case cls_call cls kwargs of
                   Inl e \<Rightarrow> if suppressed e then Inl (invalid_kwargs cls) else Inl e
                 | Inr obj \<Rightarrow> Inr obj)))"
  by (simp add: initialize_from_kwargs_def validate_kwargs_def call_with_kwargs_single
        split: sum.splits)









section \<open>RegexValidator\<close>

lemma list_ex_upto: "list_ex P [0..<Suc n] = (\<exists>j\<le>n. P j)"
  by (auto simp del: upt_Suc simp: list_ex_iff less_Suc_eq_le)

lemma regex_validate_list_ex:
  "re p = Inr sp \<Longrightarrow>
     RegexValidator_validate re (RegexObj (PStr p)) v
       = (if list_ex (\<lambda>j. sp v 0 j) [0..<Suc (length v)] then Inr ()
          else Inl (ValidationError ''Value does not match regex'' []))"
  by (simp add: RegexValidator_validate_def re_match_def)

lemma regex_validate_span:
  "re p = Inr sp \<Longrightarrow>
     RegexValidator_validate re (RegexObj (PStr p)) v
       = (if \<exists>j\<le>length v. sp v 0 j then Inr ()
          else Inl (ValidationError ''Value does not match regex'' []))"
  by (simp only: regex_validate_list_ex list_ex_upto)

lemma regex_validate_error:
  "re p = Inl e \<Longrightarrow> RegexValidator_validate re (RegexObj (PStr p)) v = Inl e"
  by (simp add: RegexValidator_validate_def re_match_def)

lemma fullmatch_accepts:
  assumes "re_fullmatch re p v = Inr True"
  shows "RegexValidator_validate re (RegexObj (PStr p)) v = Inr ()"
proof (cases "re p")
  case (Inl e)
  with assms show ?thesis by (simp add: re_fullmatch_def)
next
  case (Inr sp)
  with assms have "sp v 0 (length v)" by (simp add: re_fullmatch_def)
  then have "\<exists>j\<le>length v. sp v 0 j" by blast
  with regex_validate_span [of re p sp v, OF Inr] show ?thesis by simp
qed

lemma accepts_search:
  assumes "RegexValidator_validate re (RegexObj (PStr p)) v = Inr ()"
  shows "re_search re p v = Inr True"
proof (cases "re p")
  case (Inl e)
  with assms show ?thesis by (simp add: regex_validate_error)
next
  case (Inr sp)
  with assms regex_validate_span [of re p sp v] obtain j where j: "j \<le> length v" "sp v 0 j"
    by (auto split: if_splits)
  then have "0 \<in> set [0..<Suc (length v)]" and "j \<in> set [0..<Suc (length v)]"
    by (simp_all del: upt_Suc add: less_Suc_eq_le)
  with j have "\<exists>i\<in>set [0..<Suc (length v)]. \<exists>k\<in>set [i..<Suc (length v)]. sp v i k"
    by blast
  with Inr show ?thesis by (simp del: upt_Suc add: re_search_def list_ex_iff)
qed

lemma fragment_span_start:
  "fragment_span ps s 0 j = (j \<le> length s \<and> match_len ps True s j)"
  by (simp add: fragment_span_def)

lemma re_parse_literal:
  "\<forall>c \<in> set p. \<not> special c \<Longrightarrow> re_parse p = Some (map (\<lambda>c. One (Lit c)) p)"
proof (induction p)
  case Nil
  show ?case by simp
next
  case (Cons c cs)
  then have c: "\<not> special c" and rest: "re_parse cs = Some (map (\<lambda>c. One (Lit c)) cs)"
    by simp_all
  from c have atom: "c \<noteq> CHR ''^''" "c \<noteq> CHR ''$''" "parse_atom c = Some (Lit c)"
    by (auto simp: special_def parse_atom_def)
  show ?case
  proof (cases cs)
    case Nil
    with atom show ?thesis by simp
  next
    case (Cons q qs)
    with Cons.prems have "\<not> special q" by simp
    then have "\<not> quantifier q" by (auto simp: special_def quantifier_def)
    with atom rest Cons show ?thesis by simp
  qed
qed

lemma match_len_literal:
  "match_len (map (\<lambda>c. One (Lit c)) p) at_start s n = (n = length p \<and> prefix p s)"
proof (induction p arbitrary: at_start s n)
  case Nil
  show ?case by simp
next
  case (Cons c cs)
  show ?case
  proof (cases s)
    case Nil
    then show ?thesis by simp
  next
    case s: (Cons x xs)
    show ?thesis by (cases n) (auto simp: s Cons.IH)
  qed
qed

lemma match_len_extend:
  "Eol \<notin> set ps \<Longrightarrow> match_len ps at_start s n \<Longrightarrow> match_len ps at_start (s @ w) n"
proof (induction ps at_start s n rule: match_len.induct)
  case (6 a ps at_start n)
  then show ?case by (cases w) auto
next
  case (8 a ps at_start n)
  then show ?case by (cases w) auto
qed (auto split: nat.splits)

lemma literal_accepts_prefix:
  assumes "agrees_on_fragment re" and "\<forall>c \<in> set p. \<not> special c"
  shows "RegexValidator_validate re (RegexObj (PStr p)) v
       = (if prefix p v then Inr () else Inl (ValidationError ''Value does not match regex'' []))"
proof -
  from assms have re: "re p = Inr (fragment_span (map (\<lambda>c. One (Lit c)) p))"
    by (simp add: agrees_on_fragment_def re_parse_literal)
  have "(\<exists>j\<le>length v. fragment_span (map (\<lambda>c. One (Lit c)) p) v 0 j) = prefix p v"
    by (auto simp: fragment_span_start match_len_literal prefix_length_le)
  with regex_validate_span [of re p _ v, OF re] show ?thesis by simp
qed

lemma caret_redundant:
  assumes "agrees_on_fragment re" and "re_parse p = Some ps"
  shows "RegexValidator_validate re (RegexObj (PStr (CHR ''^'' # p))) v
       = RegexValidator_validate re (RegexObj (PStr p)) v"
proof -
  from assms have a: "re p = Inr (fragment_span ps)"
    by (simp add: agrees_on_fragment_def)
  from assms(2) have "re_parse (CHR ''^'' # p) = Some (Bol # ps)" by simp
  with assms(1) have b: "re (CHR ''^'' # p) = Inr (fragment_span (Bol # ps))"
    unfolding agrees_on_fragment_def by blast
  from regex_validate_span [of re p _ v, OF a]
    regex_validate_span [of re "CHR ''^'' # p" _ v, OF b]
  show ?thesis by (simp add: fragment_span_start)
qed

lemma accepts_extension:
  assumes "agrees_on_fragment re" and "re_parse p = Some ps" and "Eol \<notin> set ps"
    and "RegexValidator_validate re (RegexObj (PStr p)) v = Inr ()"
  shows "RegexValidator_validate re (RegexObj (PStr p)) (v @ w) = Inr ()"
proof -
  from assms(1,2) have re: "re p = Inr (fragment_span ps)"
    by (simp add: agrees_on_fragment_def)
  with assms(4) regex_validate_span [of re p _ v, OF re]
  obtain j where "j \<le> length v" "match_len ps True v j"
    by (auto simp: fragment_span_start split: if_splits)
  with assms(3) have "j \<le> length (v @ w)" "match_len ps True (v @ w) j"
    by (simp_all add: match_len_extend)
  then have "\<exists>j\<le>length (v @ w). fragment_span ps (v @ w) 0 j"
    unfolding fragment_span_start by blast
  with regex_validate_span [of re p _ "v @ w", OF re] show ?thesis by simp
qed

lemma parse_caret_a: "re_parse ''^a'' = Some [Bol, One (Lit CHR ''a'')]"
  by (simp add: parse_atom_def special_def)

lemma parse_a: "re_parse ''a'' = Some [One (Lit CHR ''a'')]"
  by (simp add: parse_atom_def special_def)

lemma parse_b: "re_parse ''b'' = Some [One (Lit CHR ''b'')]"
  by (simp add: parse_atom_def special_def)

lemma caret_a_abc:
  "list_ex (\<lambda>j. fragment_span [Bol, One (Lit CHR ''a'')] ''abc'' 0 j) [0..<Suc (length ''abc'')]"
  by code_simp

lemma caret_a_bcd:
  "\<not> list_ex (\<lambda>j. fragment_span [Bol, One (Lit CHR ''a'')] ''bcd'' 0 j) [0..<Suc (length ''bcd'')]"
  by code_simp

lemma a_abc:
  "list_ex (\<lambda>j. fragment_span [One (Lit CHR ''a'')] ''abc'' 0 j) [0..<Suc (length ''abc'')]"
  by code_simp

lemma a_abc_full: "\<not> fragment_span [One (Lit CHR ''a'')] ''abc'' 0 (length ''abc'')"
  by code_simp

lemma b_abc:
  "\<not> list_ex (\<lambda>j. fragment_span [One (Lit CHR ''b'')] ''abc'' 0 j) [0..<Suc (length ''abc'')]"
  by code_simp

lemma b_abc_search:
  "list_ex (\<lambda>i. list_ex (\<lambda>j. fragment_span [One (Lit CHR ''b'')] ''abc'' i j)
      [i..<Suc (length ''abc'')]) [0..<Suc (length ''abc'')]"
  by code_simp

lemma fragment_examples:
  assumes "agrees_on_fragment re"
  shows "RegexValidator_validate re (RegexObj (PStr ''^a'')) ''abc'' = Inr ()"
    and "RegexValidator_validate re (RegexObj (PStr ''^a'')) ''bcd''
           = Inl (ValidationError ''Value does not match regex'' [])"
    and "RegexValidator_validate re (RegexObj (PStr ''a'')) ''abc'' = Inr ()"
    and "re_fullmatch re ''a'' ''abc'' = Inr False"
    and "RegexValidator_validate re (RegexObj (PStr ''b'')) ''abc''
           = Inl (ValidationError ''Value does not match regex'' [])"
    and "re_search re ''b'' ''abc'' = Inr True"
proof -
  from assms parse_caret_a have ca: "re ''^a'' = Inr (fragment_span [Bol, One (Lit CHR ''a'')])"
    unfolding agrees_on_fragment_def by blast
  from assms parse_a have a: "re ''a'' = Inr (fragment_span [One (Lit CHR ''a'')])"
    unfolding agrees_on_fragment_def by blast
  from assms parse_b have b: "re ''b'' = Inr (fragment_span [One (Lit CHR ''b'')])"
    unfolding agrees_on_fragment_def by blast
  show "RegexValidator_validate re (RegexObj (PStr ''^a'')) ''abc'' = Inr ()"
    using regex_validate_list_ex [of re _ _ _, OF ca] caret_a_abc by simp
  show "RegexValidator_validate re (RegexObj (PStr ''^a'')) ''bcd''
           = Inl (ValidationError ''Value does not match regex'' [])"
    using regex_validate_list_ex [of re _ _ _, OF ca] caret_a_bcd by simp
  show "RegexValidator_validate re (RegexObj (PStr ''a'')) ''abc'' = Inr ()"
    using regex_validate_list_ex [of re _ _ _, OF a] a_abc by simp
  show "re_fullmatch re ''a'' ''abc'' = Inr False"
    using a_abc_full by (simp add: re_fullmatch_def a)
  show "RegexValidator_validate re (RegexObj (PStr ''b'')) ''abc''
           = Inl (ValidationError ''Value does not match regex'' [])"
    using regex_validate_list_ex [of re _ _ _, OF b] b_abc by simp
  show "re_search re ''b'' ''abc'' = Inr True"
    using b_abc_search by (simp add: re_search_def b)
qed

lemma regex_caret_a_init:
  "initialize_from_kwargs RegexValidator [(''pattern'', PStr ''^a'')] = Inr (RegexObj (PStr ''^a''))"
  by (simp add: initialize_unfold RegexValidator_validate_kwargs_def RegexValidator_init_def
        call_with_kwargs_single dict_get_def)

lemma fragment_engine_agrees: "agrees_on_fragment fragment_engine"
  by (simp add: agrees_on_fragment_def fragment_engine_def)

text \<open>
  C7. The validator configured with the pattern \<open>^a\<close> holds that pattern. For every
  regular-expression engine, pattern and raw value: when the pattern compiles,
  \<open>validate\<close> returns normally if the pattern matches the raw value from position 0 up
  to some position, and raises its \<open>ValidationError\<close> if it does not; an error of the
  compiler is passed on. So a full match is enough to be accepted but is
  not required, and a value that is accepted is one that \<open>re.search\<close> finds too, while
  a match that starts later does not help. For an engine that gives the patterns of the
  fragment their meaning: \<open>^a\<close> accepts \<open>abc\<close> and rejects \<open>bcd\<close>; \<open>a\<close> accepts \<open>abc\<close>,
  which it does not match in full; \<open>b\<close> rejects \<open>abc\<close>, in which \<open>re.search\<close> finds it;
  a pattern of ordinary characters accepts exactly the values that begin with it;
  writing \<open>^\<close> in front of a pattern changes nothing; and once a pattern without \<open>$\<close>
  accepts a value, it accepts every extension of the value.
\<close>

theorem regex_validate_prefix_match:
  "initialize_from_kwargs RegexValidator [(''pattern'', PStr ''^a'')] = Inr (RegexObj (PStr ''^a''))
   \<and> (re p = Inr sp \<longrightarrow>
      RegexValidator_validate re (RegexObj (PStr p)) value
        = (if \<exists>j\<le>length value. sp value 0 j then Inr ()
           else Inl (ValidationError ''Value does not match regex'' [])))
   \<and> (re p = Inl e \<longrightarrow> RegexValidator_validate re (RegexObj (PStr p)) value = Inl e)
   \<and> (re_fullmatch re p value = Inr True \<longrightarrow>
        RegexValidator_validate re (RegexObj (PStr p)) value = Inr ())
   \<and> (RegexValidator_validate re (RegexObj (PStr p)) value = Inr () \<longrightarrow>
        re_search re p value = Inr True)
   \<and> (agrees_on_fragment re \<longrightarrow>
        RegexValidator_validate re (RegexObj (PStr ''^a'')) ''abc'' = Inr ()
        \<and> RegexValidator_validate re (RegexObj (PStr ''^a'')) ''bcd''
            = Inl (ValidationError ''Value does not match regex'' [])
        \<and> RegexValidator_validate re (RegexObj (PStr ''a'')) ''abc'' = Inr ()
        \<and> re_fullmatch re ''a'' ''abc'' = Inr False
        \<and> RegexValidator_validate re (RegexObj (PStr ''b'')) ''abc''
            = Inl (ValidationError ''Value does not match regex'' [])
        \<and> re_search re ''b'' ''abc'' = Inr True
        \<and> ((\<forall>c \<in> set p. \<not> special c) \<longrightarrow>
              RegexValidator_validate re (RegexObj (PStr p)) value
                = (if prefix p value then Inr ()
                   else Inl (ValidationError ''Value does not match regex'' [])))
        \<and> (re_parse p = Some ps \<longrightarrow>
              RegexValidator_validate re (RegexObj (PStr (CHR ''^'' # p))) value
                = RegexValidator_validate re (RegexObj (PStr p)) value)
        \<and> (re_parse p = Some ps \<longrightarrow> Eol \<notin> set ps \<longrightarrow>
              RegexValidator_validate re (RegexObj (PStr p)) value = Inr () \<longrightarrow>
              RegexValidator_validate re (RegexObj (PStr p)) (value @ rest) = Inr ()))"
  using regex_caret_a_init
    regex_validate_span [of re p sp "value"] regex_validate_error [of re p e "value"]
    fullmatch_accepts [of re p "value"] accepts_search [of re p "value"]
    fragment_examples [of re] literal_accepts_prefix [of re p "value"]
    caret_redundant [of re p ps "value"] accepts_extension [of re p ps "value" rest]
  by (intro conjI impI) assumption+

theorem regex_validate_prefix_match_witness:
  "agrees_on_fragment fragment_engine
   \<and> fragment_engine ''a.*'' = Inr (fragment_span [One (Lit CHR ''a''), Star Dot])
   \<and> fragment_engine ''(('' = Inl ReError
   \<and> RegexValidator_validate fragment_engine (RegexObj (PStr ''((''))  ''x'' = Inl ReError
   \<and> re_fullmatch fragment_engine ''a.*'' ''ab'' = Inr True
   \<and> RegexValidator_validate fragment_engine (RegexObj (PStr ''a.*'')) ''ab'' = Inr ()
   \<and> re_search fragment_engine ''a.*'' ''ab'' = Inr True
   \<and> RegexValidator_validate fragment_engine (RegexObj (PStr ''^a'')) ''abc'' = Inr ()
   \<and> RegexValidator_validate fragment_engine (RegexObj (PStr ''^a'')) ''bcd''
       = Inl (ValidationError ''Value does not match regex'' [])
   \<and> \<not> special CHR ''a'' \<and> \<not> special CHR ''b''
   \<and> prefix ''ab'' ''abc''
   \<and> RegexValidator_validate fragment_engine (RegexObj (PStr ''ab'')) ''abc'' = Inr ()
   \<and> re_parse ''a.*'' = Some [One (Lit CHR ''a''), Star Dot]
   \<and> Eol \<notin> set [One (Lit CHR ''a''), Star Dot]
   \<and> RegexValidator_validate fragment_engine (RegexObj (PStr ''^a.*'')) ''ab''
       = RegexValidator_validate fragment_engine (RegexObj (PStr ''a.*'')) ''ab''
   \<and> RegexValidator_validate fragment_engine (RegexObj (PStr ''a.*'')) (''ab'' @ ''cd'') = Inr ()"
proof -
  note ag = fragment_engine_agrees
  have parse: "re_parse ''a.*'' = Some [One (Lit CHR ''a''), Star Dot]"
    by (simp add: parse_atom_def special_def quantifier_def quantified_def)
  then have eng: "fragment_engine ''a.*'' = Inr (fragment_span [One (Lit CHR ''a''), Star Dot])"
    by (simp add: fragment_engine_def del: re_parse.simps)
  have bad: "fragment_engine ''(('' = Inl ReError"
    by (simp add: fragment_engine_def parse_atom_def special_def)
  have full: "re_fullmatch fragment_engine ''a.*'' ''ab'' = Inr True"
    by (simp add: re_fullmatch_def eng fragment_span_start)
  have sp: "\<not> special CHR ''a''" "\<not> special CHR ''b''" by (simp_all add: special_def)
  then have sp': "\<forall>c \<in> set ''ab''. \<not> special c" by simp
  have pr: "prefix ''ab'' ''abc''" by simp
  have eol: "Eol \<notin> set [One (Lit CHR ''a''), Star Dot]" by simp
  note thm1 = regex_validate_prefix_match
    [of fragment_engine "''a.*''" "fragment_span [One (Lit CHR ''a''), Star Dot]" "''ab''" _
        "[One (Lit CHR ''a''), Star Dot]" "''cd''"]
  note thm2 = regex_validate_prefix_match
    [of fragment_engine "''((''" _ "''x''" ReError]
  note thm3 = regex_validate_prefix_match
    [of fragment_engine "''ab''" _ "''abc''"]
  from thm1 full have ok: "RegexValidator_validate fragment_engine (RegexObj (PStr ''a.*'')) ''ab'' = Inr ()"
    by blast
  with thm1 have search: "re_search fragment_engine ''a.*'' ''ab'' = Inr True"
    by blast
  from thm1 ag parse eol ok
  have ext: "RegexValidator_validate fragment_engine (RegexObj (PStr ''a.*'')) (''ab'' @ ''cd'') = Inr ()"
    by blast
  from thm1 ag parse
  have caret: "RegexValidator_validate fragment_engine (RegexObj (PStr (CHR ''^'' # ''a.*''))) ''ab''
       = RegexValidator_validate fragment_engine (RegexObj (PStr ''a.*'')) ''ab''"
    by blast
  from thm2 bad
  have err: "RegexValidator_validate fragment_engine (RegexObj (PStr ''((''))  ''x'' = Inl ReError"
    by blast
  from thm3 ag
  have ex: "RegexValidator_validate fragment_engine (RegexObj (PStr ''^a'')) ''abc'' = Inr ()"
    "RegexValidator_validate fragment_engine (RegexObj (PStr ''^a'')) ''bcd''
       = Inl (ValidationError ''Value does not match regex'' [])"
    by blast+
  from thm3 ag sp' pr
  have lit: "RegexValidator_validate fragment_engine (RegexObj (PStr ''ab'')) ''abc'' = Inr ()"
    by simp
  from ag eng bad err full ok search ex sp pr lit parse eol caret ext show ?thesis
    by (intro conjI) assumption+
qed

section \<open>RangeValidator\<close>













end

